theory Spec2Isabelle
  imports Main "HOL-Library.Sublist"
begin

section \<open>The documentation build configuration\<close>

text \<open>
  \<^verbatim>\<open>readthedocs.yaml\<close> is a static YAML document read by the documentation hosting
  service. It is embedded as the YAML value it denotes: mappings keep their keys in
  source order, block sequences keep their entries in source order, a quoted scalar
  and a plain non-numeric scalar are strings, a plain integer scalar is an integer.
  Comment lines carry no data and are absent from the value.
\<close>

datatype yaml =
    YStr string
  | YInt int
  | YSeq "yaml list"
  | YMap "(string \<times> yaml) list"

definition readthedocs :: yaml where
  "readthedocs = YMap
    [(''version'', YInt 2),
     (''sphinx'', YMap
        [(''configuration'', YStr ''doc/conf.py'')]),
     (''build'', YMap
        [(''os'', YStr ''ubuntu-22.04''),
         (''tools'', YMap
            [(''python'', YStr ''3.10''),
             (''nodejs'', YStr ''19'')]),
         (''apt_packages'', YSeq
            [YStr ''imagemagick'',
             YStr ''libgl1-mesa-dev'',
             YStr ''xvfb''])]),
     (''formats'', YSeq
        [YStr ''htmlzip'']),
     (''python'', YMap
        [(''install'', YSeq
            [YMap
               [(''method'', YStr ''pip''),
                (''path'', YStr ''.''),
                (''extra_requirements'', YSeq
                   [YStr ''doc'',
                    YStr ''viz''])]])])]"

text \<open>Reading the document: a key of a mapping, a path of keys, the keys of a mapping.\<close>

fun field :: "string \<Rightarrow> yaml \<Rightarrow> yaml option" where
  "field k (YMap kvs) = map_of kvs k"
| "field k _ = None"

fun at_path :: "string list \<Rightarrow> yaml \<Rightarrow> yaml option" where
  "at_path [] y = Some y"
| "at_path (k # ks) y = (case field k y of None \<Rightarrow> None | Some v \<Rightarrow> at_path ks v)"

fun keys :: "yaml \<Rightarrow> string list" where
  "keys (YMap kvs) = map fst kvs"
| "keys _ = []"

text \<open>
  Lines 29 to 31 of the file, as text. The third line is a comment: the \<^verbatim>\<open>pdf\<close>
  entry is written but disabled. \<open>block_seq_items\<close> reads the entries of a block
  sequence from its lines as YAML does: a line whose first non-blank character is
  \<^verbatim>\<open>#\<close> is a comment and gives no entry, a line \<^verbatim>\<open>- x\<close> gives the entry \<^verbatim>\<open>x\<close>.
\<close>

definition formats_src :: "string list" where
  "formats_src = [''formats:'', ''  - htmlzip'', ''#  - pdf'']"

definition lstrip :: "string \<Rightarrow> string" where
  "lstrip l = dropWhile (\<lambda>c. c = CHR '' '') l"

definition is_comment_line :: "string \<Rightarrow> bool" where
  "is_comment_line l = (case lstrip l of [] \<Rightarrow> False | c # _ \<Rightarrow> c = CHR ''#'')"

definition seq_item :: "string \<Rightarrow> string option" where
  "seq_item l =
     (if is_comment_line l then None
      else (case lstrip l of
              c # rest \<Rightarrow> (if c = CHR ''-'' then Some (lstrip rest) else None)
            | [] \<Rightarrow> None))"

definition block_seq_items :: "string list \<Rightarrow> string list" where
  "block_seq_items ls = List.map_filter seq_item ls"

section \<open>The tutorial notebooks\<close>

subsection \<open>Python syntax of the code cells\<close>

text \<open>
  A code cell is a list of Python statements. The syntax tree below follows Python's
  own abstract syntax (module \<^verbatim>\<open>ast\<close>): comments are dropped, a keyword argument of a
  call is the argument \<open>Keyword name value\<close>, a float literal keeps its text, and an
  assignment has one target (no cell chains assignments). The statement forms that no
  cell uses (\<open>While\<close>, \<open>IfStmt\<close>, \<open>Try\<close>, \<open>With\<close>, \<open>Raise\<close>, \<open>Assert\<close>, \<open>FunctionDef\<close>,
  \<open>ClassDef\<close>, \<open>Return\<close>, \<open>Delete\<close>) are part of the syntax so that their absence from
  the notebooks is a property of the notebooks and not of the type.
\<close>

datatype binop = OpAdd | OpSub | OpMult | OpDiv

datatype expr =
    Name string
  | IntLit int
  | FloatLit string
  | StrLit string
  | BoolLit bool
  | EllipsisLit
  | FString "expr list"
  | Tuple "expr list"
  | ListLit "expr list"
  | DictLit "expr list" "expr list"
  | Attr expr string
  | Subscript expr expr
  | Slice "expr option" "expr option" "expr option"
  | Call expr "expr list"
  | Keyword string expr
  | Starred expr
  | BinOp expr binop expr
  | Neg expr

datatype stmt =
    Magic string
  | Import string "string option"
  | ImportFrom string "string list"
  | Assign expr expr
  | ExprStmt expr
  | Delete expr
  | For expr expr "stmt list"
  | While expr "stmt list"
  | IfStmt expr "stmt list" "stmt list"
  | Try "stmt list" "stmt list" "stmt list"
  | With expr "stmt list"
  | Raise expr
  | Assert expr
  | FunctionDef string "string list" "stmt list"
  | ClassDef string "stmt list"
  | Return expr

text \<open>
  A notebook, as far as the properties below need it: the sentence of its opening
  markdown cell that says whose documentation it is part of, its code cells in order,
  the sentences of its markdown prose that speak of optional dependencies, and the
  interpreter recorded in its metadata (\<^verbatim>\<open>metadata.language_info\<close>).
\<close>

record notebook =
  banner :: string
  code_cells :: "stmt list list"
  dependency_notes :: "string list"
  language_name :: string
  language_version :: string

subsection \<open>The notebook on virtual backscatter electron imaging\<close>

text \<open>
  The code cells of \<^verbatim>\<open>doc/tutorials/virtual_backscatter_electron_imaging.ipynb\<close>, in
  order; each is preceded by the lines of the file that hold its source.
\<close>

definition vbse_cells :: "stmt list list" where
  "vbse_cells =
   [\<comment> \<open>0: lines 48-65\<close>
    [Magic ''matplotlib inline'',
     ImportFrom ''pathlib'' [''Path''],
     Import ''tempfile'' None,
     Import ''matplotlib.pyplot'' (Some ''plt''),
     Import ''numpy'' (Some ''np''),
     Import ''hyperspy.api'' (Some ''hs''),
     Import ''kikuchipy'' (Some ''kp''),
     Assign (Subscript (Attr (Name ''plt'') ''rcParams'') (StrLit ''font.size'')) (IntLit 12),
     Assign (Name ''s'')
       (Call (Attr (Attr (Name ''kp'') ''data'') ''nickel_ebsd_large'')
          [Keyword ''allow_download'' (BoolLit True)]),
     ExprStmt (Name ''s'')],
    \<comment> \<open>1: lines 83-84\<close>
    [Assign (Name ''roi'')
       (Call (Attr (Attr (Name ''hs'') ''roi'') ''RectangularROI'')
          [Keyword ''left'' (IntLit 0), Keyword ''top'' (IntLit 0),
           Keyword ''right'' (IntLit 10), Keyword ''bottom'' (IntLit 10)]),
     ExprStmt (Call (Attr (Name ''s'') ''plot_virtual_bse_intensity'') [Name ''roi''])],
    \<comment> \<open>2: lines 107-108\<close>
    [Assign (Name ''vbse'')
       (Call (Attr (Name ''s'') ''get_virtual_bse_intensity'') [Name ''roi'']),
     ExprStmt (Name ''vbse'')],
    \<comment> \<open>3: lines 117-118\<close>
    [Assign (Name ''temp_dir'')
       (Call (Name ''Path'') [Call (Attr (Name ''tempfile'') ''mkdtemp'') []]),
     ExprStmt (Call (Attr (Name ''plt'') ''imsave'')
       [BinOp (Name ''temp_dir'') OpDiv (StrLit ''vbse1.png''),
        Keyword ''arr'' (Attr (Name ''vbse'') ''data'')])],
    \<comment> \<open>4: lines 157-158\<close>
    [Assign (Name ''vbse_imager'')
       (Call (Attr (Attr (Name ''kp'') ''imaging'') ''VirtualBSEImager'') [Name ''s'']),
     ExprStmt (Name ''vbse_imager'')],
    \<comment> \<open>5: line 177\<close>
    [ExprStmt (Attr (Name ''vbse_imager'') ''grid_shape'')],
    \<comment> \<open>6: lines 186-195\<close>
    [Assign (Attr (Name ''vbse_imager'') ''grid_shape'') (Tuple [IntLit 10, IntLit 10]),
     Assign (Name ''red'')
       (ListLit [Tuple [IntLit 7, IntLit 1], Tuple [IntLit 8, IntLit 1],
                 Tuple [IntLit 8, IntLit 2], Tuple [IntLit 9, IntLit 1],
                 Tuple [IntLit 9, IntLit 2]]),
     Assign (Name ''green'')
       (ListLit [Tuple [IntLit 8, IntLit 4], Tuple [IntLit 8, IntLit 5],
                 Tuple [IntLit 9, IntLit 4], Tuple [IntLit 9, IntLit 5]]),
     Assign (Name ''blue'')
       (ListLit [Tuple [IntLit 7, IntLit 8], Tuple [IntLit 8, IntLit 7],
                 Tuple [IntLit 8, IntLit 8], Tuple [IntLit 9, IntLit 7],
                 Tuple [IntLit 9, IntLit 8]]),
     Assign (Name ''p'')
       (Call (Attr (Name ''vbse_imager'') ''plot_grid'')
          [Keyword ''rgb_channels'' (ListLit [Name ''red'', Name ''green'', Name ''blue'']),
           Keyword ''visible_indices'' (BoolLit True),
           Keyword ''pattern_idx'' (Tuple [IntLit 10, IntLit 20])]),
     ExprStmt (Name ''p'')],
    \<comment> \<open>7: lines 222-223\<close>
    [Assign (Name ''vbse_rgb_img'')
       (Call (Attr (Name ''vbse_imager'') ''get_rgb_image'')
          [Keyword ''r'' (Name ''red''), Keyword ''g'' (Name ''green''),
           Keyword ''b'' (Name ''blue'')]),
     ExprStmt (Name ''vbse_rgb_img'')],
    \<comment> \<open>8: line 239\<close>
    [ExprStmt (Call (Attr (Name ''vbse_rgb_img'') ''plot'')
       [Keyword ''title'' (StrLit ''''), Keyword ''axes_off'' (BoolLit True)])],
    \<comment> \<open>9: lines 264-266\<close>
    [Assign (Attr (Name ''vbse_imager'') ''grid_shape'') (Tuple [IntLit 3, IntLit 3]),
     Assign (Name ''vbse_imgs'')
       (Call (Attr (Name ''vbse_imager'') ''get_images_from_grid'') []),
     ExprStmt (Name ''vbse_imgs'')],
    \<comment> \<open>10: line 275\<close>
    [ExprStmt (Call (Attr (Name ''vbse_imgs'') ''plot'') [])],
    \<comment> \<open>11: lines 284-290\<close>
    [Assign (Tuple [Name ''fig'', Name ''ax''])
       (Call (Attr (Name ''plt'') ''subplots'')
          [Keyword ''nrows'' (IntLit 3), Keyword ''ncols'' (IntLit 3),
           Keyword ''figsize'' (Tuple [IntLit 20, IntLit 20])]),
     For (Name ''idx'')
       (Call (Attr (Name ''np'') ''ndindex'')
          [Subscript
             (Attr (Attr (Name ''vbse_imgs'') ''axes_manager'') ''navigation_shape'')
             (Slice None None (Some (Neg (IntLit 1))))])
       [Assign (Name ''hs_idx'')
          (Subscript (Name ''idx'') (Slice None None (Some (Neg (IntLit 1))))),
        ExprStmt (Call (Attr (Subscript (Name ''ax'') (Name ''idx'')) ''imshow'')
          [Attr (Subscript (Attr (Name ''vbse_imgs'') ''inav'') (Name ''hs_idx'')) ''data'',
           Keyword ''cmap'' (StrLit ''gray'')]),
        ExprStmt (Call (Attr (Subscript (Name ''ax'') (Name ''idx'')) ''axis'')
          [StrLit ''off''])],
     ExprStmt (Call (Attr (Name ''fig'') ''tight_layout'')
       [Keyword ''w_pad'' (FloatLit ''0.5''), Keyword ''h_pad'' (Neg (IntLit 24))])],
    \<comment> \<open>12: line 314\<close>
    [ExprStmt (Attr (Attr (Name ''vbse_imgs'') ''data'') ''dtype'')],
    \<comment> \<open>13: lines 323-324\<close>
    [Assign (Name ''vbse_imgs2'') (Call (Attr (Name ''vbse_imgs'') ''deepcopy'') []),
     ExprStmt (Call (Attr (Name ''vbse_imgs2'') ''rescale_intensity'')
       [Keyword ''out_range'' (Tuple [IntLit 0, IntLit 1]),
        Keyword ''percentiles'' (Tuple [FloatLit ''0.5'', FloatLit ''99.5''])])],
    \<comment> \<open>14: lines 333-334\<close>
    [ExprStmt (Call (Name ''print'')
       [Call (Attr (Attr (Name ''vbse_imgs'') ''data'') ''min'') [],
        Call (Attr (Attr (Name ''vbse_imgs'') ''data'') ''max'') []]),
     ExprStmt (Call (Name ''print'')
       [Call (Attr (Attr (Name ''vbse_imgs2'') ''data'') ''min'') [],
        Call (Attr (Attr (Name ''vbse_imgs2'') ''data'') ''max'') []])],
    \<comment> \<open>15: lines 343-348\<close>
    [Assign (Tuple [Name ''fig'', Name ''ax''])
       (Call (Attr (Name ''plt'') ''subplots'')
          [Keyword ''nrows'' (IntLit 3), Keyword ''ncols'' (IntLit 3),
           Keyword ''figsize'' (Tuple [IntLit 20, IntLit 20])]),
     For (Name ''idx'')
       (Call (Attr (Name ''np'') ''ndindex'')
          [Subscript
             (Attr (Attr (Name ''vbse_imgs2'') ''axes_manager'') ''navigation_shape'')
             (Slice None None (Some (Neg (IntLit 1))))])
       [Assign (Name ''hs_idx'')
          (Subscript (Name ''idx'') (Slice None None (Some (Neg (IntLit 1))))),
        ExprStmt (Call (Attr (Subscript (Name ''ax'') (Name ''idx'')) ''imshow'')
          [Attr (Subscript (Attr (Name ''vbse_imgs2'') ''inav'') (Name ''hs_idx'')) ''data'',
           Keyword ''cmap'' (StrLit ''gray'')]),
        ExprStmt (Call (Attr (Subscript (Name ''ax'') (Name ''idx'')) ''axis'')
          [StrLit ''off''])],
     ExprStmt (Call (Attr (Name ''fig'') ''tight_layout'')
       [Keyword ''w_pad'' (FloatLit ''0.5''), Keyword ''h_pad'' (Neg (IntLit 24))])],
    \<comment> \<open>16: lines 365-366\<close>
    [Assign (Name ''roi2'')
       (Call (Attr (Name ''vbse_imager'') ''roi_from_grid'') [Tuple [IntLit 3, IntLit 3]]),
     ExprStmt (Name ''roi2'')],
    \<comment> \<open>17: lines 377-381\<close>
    [Import ''os'' None,
     ExprStmt (Call (Attr (Name ''os'') ''remove'')
       [BinOp (Name ''temp_dir'') OpDiv (StrLit ''vbse1.png'')]),
     ExprStmt (Call (Attr (Name ''os'') ''rmdir'') [Name ''temp_dir''])]]"

definition vbse_notebook :: notebook where
  "vbse_notebook =
     \<lparr>banner = ''This notebook is part of the `kikuchipy` documentation https://kikuchipy.org.'',
      code_cells = vbse_cells,
      dependency_notes = [],
      language_name = ''python'',
      language_version = ''3.10.9''\<rparr>"

subsection \<open>The notebook on Hough indexing\<close>

text \<open>
  The code cells of \<^verbatim>\<open>doc/tutorials/hough_indexing.ipynb\<close> (the first notebook held
  by that file, lines 1 to 699), in order. Its markdown prose speaks of an optional
  dependency once, in the note of lines 24 to 33; the sentence is line 28.
\<close>

definition hough_cells :: "stmt list list" where
  "hough_cells =
   [\<comment> \<open>0: lines 45-61\<close>
    [Magic ''matplotlib inline'',
     Import ''matplotlib.pyplot'' (Some ''plt''),
     Import ''numpy'' (Some ''np''),
     ImportFrom ''diffpy.structure'' [''Atom'', ''Lattice'', ''Structure''],
     ImportFrom ''diffsims.crystallography'' [''ReciprocalLatticeVector''],
     Import ''kikuchipy'' (Some ''kp''),
     ImportFrom ''orix'' [''plot''],
     ImportFrom ''orix.crystal_map'' [''Phase'', ''PhaseList''],
     ImportFrom ''orix.vector'' [''Vector3d''],
     ExprStmt (Call (Attr (Attr (Name ''plt'') ''rcParams'') ''update'')
       [DictLit [StrLit ''font.size'', StrLit ''lines.markersize'',
                 StrLit ''scatter.edgecolors'']
                [IntLit 15, IntLit 15, StrLit ''k'']])],
    \<comment> \<open>1: lines 79-80\<close>
    [Assign (Name ''s'')
       (Call (Attr (Attr (Name ''kp'') ''data'') ''nickel_ebsd_large'')
          [Keyword ''allow_download'' (BoolLit True)]),
     ExprStmt (Name ''s'')],
    \<comment> \<open>2: lines 102-103\<close>
    [Assign (Name ''vbse_imager'')
       (Call (Attr (Attr (Name ''kp'') ''imaging'') ''VirtualBSEImager'') [Name ''s'']),
     ExprStmt (Call (Name ''print'') [Attr (Name ''vbse_imager'') ''grid_shape''])],
    \<comment> \<open>3: lines 121-122\<close>
    [Assign (Name ''maps_vbse_rgb'')
       (Call (Attr (Name ''vbse_imager'') ''get_rgb_image'')
          [Keyword ''r'' (Tuple [IntLit 2, IntLit 1]),
           Keyword ''g'' (Tuple [IntLit 2, IntLit 2]),
           Keyword ''b'' (Tuple [IntLit 2, IntLit 3])]),
     ExprStmt (Name ''maps_vbse_rgb'')],
    \<comment> \<open>4: line 140\<close>
    [ExprStmt (Call (Attr (Name ''maps_vbse_rgb'') ''plot'') [])],
    \<comment> \<open>5: lines 160-161\<close>
    [ExprStmt (Call (Attr (Name ''s'') ''remove_static_background'') []),
     ExprStmt (Call (Attr (Name ''s'') ''remove_dynamic_background'') [])],
    \<comment> \<open>6: line 179\<close>
    [Assign (Name ''maps_iq'') (Call (Attr (Name ''s'') ''get_image_quality'') [])],
    \<comment> \<open>7: lines 197-203\<close>
    [ExprStmt (Call (Attr (Attr (Name ''s'') ''xmap'') ''plot'')
       [Call (Attr (Name ''maps_iq'') ''ravel'') [],
        Keyword ''cmap'' (StrLit ''gray''),
        Keyword ''colorbar'' (BoolLit True),
        Keyword ''colorbar_label'' (StrLit ''Image quality $Q$''),
        Keyword ''remove_padding'' (BoolLit True)])],
    \<comment> \<open>8: lines 234-237\<close>
    [Assign (Name ''sig_shape'')
       (Subscript (Attr (Attr (Name ''s'') ''axes_manager'') ''signal_shape'')
          (Slice None None (Some (Neg (IntLit 1))))),
     Assign (Name ''det'')
       (Call (Attr (Attr (Name ''kp'') ''detectors'') ''EBSDDetector'')
          [Name ''sig_shape'', Keyword ''sample_tilt'' (IntLit 70)]),
     ExprStmt (Name ''det'')],
    \<comment> \<open>9: lines 255-257\<close>
    [Assign (Name ''grid_shape'') (Tuple [IntLit 5, IntLit 4]),
     Assign (Tuple [Name ''s_grid'', Name ''idx''])
       (Call (Attr (Name ''s'') ''extract_grid'')
          [Name ''grid_shape'', Keyword ''return_indices'' (BoolLit True)]),
     ExprStmt (Name ''s_grid'')],
    \<comment> \<open>10: lines 275-281\<close>
    [Assign (Name ''nav_shape'')
       (Subscript (Attr (Attr (Name ''s'') ''axes_manager'') ''navigation_shape'')
          (Slice None None (Some (Neg (IntLit 1))))),
     ExprStmt (Call (Attr (Attr (Name ''kp'') ''draw'') ''plot_pattern_positions_in_map'')
       [Keyword ''rc''
          (Attr (Call (Attr (Name ''idx'') ''reshape'') [IntLit 2, Neg (IntLit 1)]) ''T''),
        Keyword ''roi_shape'' (Name ''nav_shape''),
        Keyword ''roi_image'' (Name ''maps_iq'')])],
    \<comment> \<open>11: lines 303-313\<close>
    [Assign (Name ''phase_list'')
       (Call (Name ''PhaseList'')
          [Call (Name ''Phase'')
             [Keyword ''name'' (StrLit ''ni''),
              Keyword ''space_group'' (IntLit 225),
              Keyword ''structure''
                (Call (Name ''Structure'')
                   [Keyword ''lattice''
                      (Call (Name ''Lattice'')
                         [FloatLit ''3.5236'', FloatLit ''3.5236'', FloatLit ''3.5236'',
                          IntLit 90, IntLit 90, IntLit 90]),
                    Keyword ''atoms''
                      (ListLit [Call (Name ''Atom'')
                         [StrLit ''Ni'', ListLit [IntLit 0, IntLit 0, IntLit 0]]])])]]),
     ExprStmt (Name ''phase_list'')],
    \<comment> \<open>12: lines 323-329\<close>
    [Assign (Name ''indexer'') (Call (Attr (Name ''det'') ''get_indexer'') [Name ''phase_list'']),
     ExprStmt (Call (Name ''print'') [Attr (Name ''indexer'') ''vendor'']),
     ExprStmt (Call (Name ''print'') [Attr (Name ''indexer'') ''sampleTilt'']),
     ExprStmt (Call (Name ''print'') [Attr (Name ''indexer'') ''camElev'']),
     ExprStmt (Call (Name ''print'') [Attr (Name ''indexer'') ''PC'']),
     ExprStmt (Call (Name ''print'') [Attr (Name ''indexer'') ''phaselist''])],
    \<comment> \<open>13: lines 348-356\<close>
    [Assign (Name ''det'')
       (Call (Attr (Name ''s_grid'') ''hough_indexing_optimize_pc'')
          [Keyword ''pc0'' (ListLit [FloatLit ''0.4'', FloatLit ''0.2'', FloatLit ''0.5'']),
           Keyword ''indexer'' (Name ''indexer''),
           Keyword ''batch'' (BoolLit True)]),
     ExprStmt (Call (Name ''print'')
       [Call (Attr (Attr (Name ''det'') ''pc_flattened'') ''mean'')
          [Keyword ''axis'' (IntLit 0)]]),
     ExprStmt (Call (Name ''print'')
       [Call (Attr (Attr (Name ''det'') ''pc_flattened'') ''std'') [IntLit 0]])],
    \<comment> \<open>14: line 374\<close>
    [ExprStmt (Call (Attr (Name ''det'') ''plot_pc'')
       [StrLit ''scatter'', Keyword ''s'' (IntLit 50), Keyword ''annotate'' (BoolLit True)])],
    \<comment> \<open>15: line 394\<close>
    [Assign (Attr (Name ''det'') ''pc'') (Attr (Name ''det'') ''pc_average'')],
    \<comment> \<open>16: line 412\<close>
    [ExprStmt (Call (Attr (Name ''det'') ''plot'')
       [Keyword ''pattern''
          (Attr (Subscript (Attr (Name ''s_grid'') ''inav'') (Tuple [IntLit 0, IntLit 0]))
             ''data'')])],
    \<comment> \<open>17: lines 433-434\<close>
    [Assign (Name ''indexer'') (Call (Attr (Name ''det'') ''get_indexer'') [Name ''phase_list'']),
     ExprStmt (Attr (Name ''indexer'') ''PC'')],
    \<comment> \<open>18: line 454\<close>
    [Assign (Name ''xmap'')
       (Call (Attr (Name ''s'') ''hough_indexing'')
          [Keyword ''phase_list'' (Name ''phase_list''),
           Keyword ''indexer'' (Name ''indexer''),
           Keyword ''verbose'' (IntLit 2)])],
    \<comment> \<open>19: line 464\<close>
    [ExprStmt (Name ''xmap'')],
    \<comment> \<open>20: lines 490-498\<close>
    [Assign (Name ''aspect_ratio'')
       (BinOp (Subscript (Attr (Name ''xmap'') ''shape'') (IntLit 1)) OpDiv
              (Subscript (Attr (Name ''xmap'') ''shape'') (IntLit 0))),
     Assign (Name ''figsize'')
       (Tuple [BinOp (IntLit 8) OpMult (Name ''aspect_ratio''),
               BinOp (FloatLit ''4.5'') OpMult (Name ''aspect_ratio'')]),
     Assign (Tuple [Name ''fig'', Name ''ax''])
       (Call (Attr (Name ''plt'') ''subplots'')
          [Keyword ''nrows'' (IntLit 2), Keyword ''ncols'' (IntLit 2),
           Keyword ''figsize'' (Name ''figsize'')]),
     For (Tuple [Name ''a'', Name ''to_plot''])
       (Call (Name ''zip'')
          [Call (Attr (Name ''ax'') ''ravel'') [],
           ListLit [StrLit ''pq'', StrLit ''cm'', StrLit ''fit'', StrLit ''nmatch'']])
       [Assign (Name ''im'')
          (Call (Attr (Name ''a'') ''imshow'')
             [Call (Attr (Name ''xmap'') ''get_map_data'') [Name ''to_plot'']]),
        ExprStmt (Call (Attr (Name ''fig'') ''colorbar'')
          [Name ''im'', Keyword ''ax'' (Name ''a''), Keyword ''label'' (Name ''to_plot'')]),
        ExprStmt (Call (Attr (Name ''a'') ''axis'') [StrLit ''off''])],
     ExprStmt (Call (Attr (Name ''fig'') ''subplots_adjust'')
       [Keyword ''wspace'' (IntLit 0), Keyword ''hspace'' (FloatLit ''0.05'')])],
    \<comment> \<open>21: lines 521-525\<close>
    [Assign (Name ''v_ipf'') (Call (Attr (Name ''Vector3d'') ''xvector'') []),
     Assign (Name ''sym'')
       (Attr (Subscript (Attr (Name ''xmap'') ''phases'') (IntLit 0)) ''point_group''),
     Assign (Name ''ckey'')
       (Call (Attr (Name ''plot'') ''IPFColorKeyTSL'') [Name ''sym'', Name ''v_ipf'']),
     ExprStmt (Name ''ckey'')],
    \<comment> \<open>22: lines 551-559\<close>
    [Assign (Name ''rgb_x'')
       (Call (Attr (Name ''ckey'') ''orientation2color'') [Attr (Name ''xmap'') ''rotations'']),
     Assign (Name ''fig'')
       (Call (Attr (Name ''xmap'') ''plot'')
          [Name ''rgb_x'', Keyword ''overlay'' (StrLit ''cm''),
           Keyword ''remove_padding'' (BoolLit True),
           Keyword ''return_figure'' (BoolLit True)]),
     Assign (Name ''ax_ckey'')
       (Call (Attr (Name ''fig'') ''add_axes'')
          [ListLit [FloatLit ''0.77'', FloatLit ''0.07'', FloatLit ''0.2'', FloatLit ''0.2''],
           Keyword ''projection'' (StrLit ''ipf''),
           Keyword ''symmetry'' (Name ''sym'')]),
     ExprStmt (Call (Attr (Name ''ax_ckey'') ''plot_ipf_color_key'')
       [Keyword ''show_title'' (BoolLit False)]),
     ExprStmt (Call (Attr (Attr (Name ''ax_ckey'') ''patch'') ''set_facecolor'')
       [StrLit ''None''])],
    \<comment> \<open>23: lines 579-590\<close>
    [Assign (Name ''directions'')
       (Call (Name ''Vector3d'')
          [Tuple [Tuple [IntLit 1, IntLit 0, IntLit 0],
                  Tuple [IntLit 0, IntLit 1, IntLit 0],
                  Tuple [IntLit 0, IntLit 0, IntLit 1]]]),
     Assign (Name ''n'') (Attr (Name ''directions'') ''size''),
     Assign (Name ''figsize'')
       (Tuple [BinOp (BinOp (IntLit 4) OpMult (Name ''n'')) OpMult (Name ''aspect_ratio''),
               BinOp (Name ''n'') OpMult (Name ''aspect_ratio'')]),
     Assign (Tuple [Name ''fig'', Name ''ax''])
       (Call (Attr (Name ''plt'') ''subplots'')
          [Keyword ''ncols'' (Name ''n''), Keyword ''figsize'' (Name ''figsize'')]),
     For (Tuple [Name ''i'', Name ''title''])
       (Call (Name ''zip'')
          [Call (Name ''range'') [Name ''n''],
           ListLit [StrLit ''X'', StrLit ''Y'', StrLit ''Z'']])
       [Assign (Attr (Name ''ckey'') ''direction'')
          (Subscript (Name ''directions'') (Name ''i'')),
        Assign (Name ''rgb'')
          (Call (Attr (Name ''ckey'') ''orientation2color'')
             [Attr (Name ''xmap'') ''rotations'']),
        ExprStmt (Call (Attr (Subscript (Name ''ax'') (Name ''i'')) ''imshow'')
          [Call (Attr (Name ''rgb'') ''reshape'')
             [BinOp (Attr (Name ''xmap'') ''shape'') OpAdd (Tuple [IntLit 3])]]),
        ExprStmt (Call (Attr (Subscript (Name ''ax'') (Name ''i'')) ''set_title'')
          [FString [StrLit ''IPF-'', Name ''title'']]),
        ExprStmt (Call (Attr (Subscript (Name ''ax'') (Name ''i'')) ''axis'')
          [StrLit ''off''])],
     ExprStmt (Call (Attr (Name ''fig'') ''subplots_adjust'')
       [Keyword ''wspace'' (FloatLit ''0.02'')])],
    \<comment> \<open>24: lines 610-615\<close>
    [Assign (Name ''rlv'')
       (Call (Name ''ReciprocalLatticeVector'')
          [Keyword ''phase'' (Subscript (Attr (Name ''xmap'') ''phases'') (IntLit 0)),
           Keyword ''hkl''
             (ListLit [ListLit [IntLit 1, IntLit 1, IntLit 1],
                       ListLit [IntLit 2, IntLit 0, IntLit 0],
                       ListLit [IntLit 2, IntLit 2, IntLit 0],
                       ListLit [IntLit 3, IntLit 1, IntLit 1]])]),
     Assign (Name ''rlv'') (Call (Attr (Name ''rlv'') ''symmetrise'') []),
     Assign (Name ''simulator'')
       (Call (Attr (Attr (Name ''kp'') ''simulations'') ''KikuchiPatternSimulator'')
          [Name ''rlv'']),
     Assign (Name ''sim'')
       (Call (Attr (Name ''simulator'') ''on_detector'')
          [Name ''det'',
           Call (Attr (Attr (Name ''xmap'') ''rotations'') ''reshape'')
             [Starred (Attr (Name ''xmap'') ''shape'')]])],
    \<comment> \<open>25: lines 633-637\<close>
    [Assign (Name ''markers'') (Call (Attr (Name ''sim'') ''as_markers'') []),
     ExprStmt (Call (Attr (Name ''s'') ''add_marker'')
       [Name ''markers'', Keyword ''plot_marker'' (BoolLit False),
        Keyword ''permanent'' (BoolLit True)])],
    \<comment> \<open>26: line 655\<close>
    [Assign (Name ''maps_nav_rgb'')
       (Call (Attr (Attr (Name ''kp'') ''draw'') ''get_rgb_navigator'')
          [Call (Attr (Name ''rgb_x'') ''reshape'')
             [BinOp (Attr (Name ''xmap'') ''shape'') OpAdd (Tuple [IntLit 3])]])],
    \<comment> \<open>27: line 665\<close>
    [ExprStmt (Call (Attr (Name ''s'') ''plot'') [Name ''maps_nav_rgb''])]]"

definition hough_notebook :: notebook where
  "hough_notebook =
     \<lparr>banner = ''This notebook is part of the `kikuchipy` documentation https://kikuchipy.org.'',
      code_cells = hough_cells,
      dependency_notes =
        [''PyEBSDIndex is an optional dependency of kikuchipy, and can be installed with both `pip` and `conda` (from `conda-forge`).''],
      language_name = ''python'',
      language_version = ''3.10.9''\<rparr>"

subsection \<open>The notebook on visualizing patterns\<close>

text \<open>
  The file \<^verbatim>\<open>doc/tutorials/hough_indexing.ipynb\<close> holds a second notebook after the
  first (lines 700 to 1005), titled "Visualizing patterns"; the first notebook links
  to it as \<^verbatim>\<open>visualizing_patterns.ipynb\<close>. These are its code cells, in order. Its
  markdown prose speaks of an optional dependency once, in the closing cell; the
  sentence is line 974.
\<close>

definition visualizing_cells :: "stmt list list" where
  "visualizing_cells =
   [\<comment> \<open>0: lines 731-746\<close>
    [Magic ''matplotlib inline'',
     Import ''matplotlib.pyplot'' (Some ''plt''),
     Import ''numpy'' (Some ''np''),
     Import ''pyvista'' None,
     Import ''skimage.exposure'' (Some ''ske''),
     Import ''skimage.transform'' (Some ''skt''),
     Import ''hyperspy.api'' (Some ''hs''),
     Import ''kikuchipy'' (Some ''kp''),
     ImportFrom ''orix'' [''io'', ''plot'', ''quaternion'', ''vector''],
     ExprStmt (Call (Attr (Name ''pyvista'') ''set_jupyter_backend'') [StrLit ''panel''])],
    \<comment> \<open>1: lines 755-757\<close>
    [Assign (Name ''s'')
       (Call (Attr (Attr (Name ''kp'') ''data'') ''nickel_ebsd_large'')
          [Keyword ''allow_download'' (BoolLit True)]),
     ExprStmt (Name ''s'')],
    \<comment> \<open>2: line 776\<close>
    [ExprStmt (Call (Attr (Name ''s'') ''plot'') [])],
    \<comment> \<open>3: lines 807-809\<close>
    [Assign (Name ''vbse_imager'')
       (Call (Attr (Attr (Name ''kp'') ''imaging'') ''VirtualBSEImager'') [Name ''s'']),
     ExprStmt (Call (Name ''print'') [Name ''vbse_imager'']),
     ExprStmt (Call (Name ''print'') [Attr (Name ''vbse_imager'') ''grid_shape''])],
    \<comment> \<open>4: lines 818-819\<close>
    [Assign (Name ''vbse_rgb'')
       (Call (Attr (Name ''vbse_imager'') ''get_rgb_image'')
          [Keyword ''r'' (Tuple [IntLit 3, IntLit 1]),
           Keyword ''b'' (Tuple [IntLit 3, IntLit 2]),
           Keyword ''g'' (Tuple [IntLit 3, IntLit 3])]),
     ExprStmt (Name ''vbse_rgb'')],
    \<comment> \<open>5: line 828\<close>
    [ExprStmt (Call (Attr (Name ''s'') ''plot'')
       [Keyword ''navigator'' (Name ''vbse_rgb''), Keyword ''cmap'' (StrLit ''viridis'')])],
    \<comment> \<open>6: lines 846-847\<close>
    [ExprStmt (Call (Attr (Name ''s'') ''remove_static_background'') []),
     ExprStmt (Call (Attr (Name ''s'') ''remove_dynamic_background'') [])],
    \<comment> \<open>7: lines 856-858\<close>
    [Assign (Name ''iq'') (Call (Attr (Name ''s'') ''get_image_quality'') []),
     Assign (Name ''s_iq'')
       (Call (Attr (Attr (Name ''hs'') ''signals'') ''Signal2D'') [Name ''iq'']),
     ExprStmt (Call (Attr (Name ''s'') ''plot'') [Keyword ''navigator'' (Name ''s_iq'')])],
    \<comment> \<open>8: lines 875-881\<close>
    [Assign (Name ''rgb_z'')
       (Call (Attr (Name ''plt'') ''imread'')
          [StrLit ''../_static/image/visualizing_patterns/ni_large_rgb_z.png'']),
     Assign (Name ''rgb_z'')
       (Subscript (Name ''rgb_z'')
          (Tuple [EllipsisLit, Slice None (Some (IntLit 3)) None])),
     Assign (Name ''s_rgb_z'')
       (Call (Attr (Attr (Name ''kp'') ''draw'') ''get_rgb_navigator'') [Name ''rgb_z'']),
     ExprStmt (Call (Attr (Name ''s'') ''plot'')
       [Keyword ''navigator'' (Name ''s_rgb_z''), Keyword ''colorbar'' (BoolLit False)])],
    \<comment> \<open>9: lines 913-917\<close>
    [Assign (Name ''mp_stereo'')
       (Call (Attr (Attr (Name ''kp'') ''data'') ''nickel_ebsd_master_pattern_small'')
          [Keyword ''projection'' (StrLit ''stereographic''),
           Keyword ''hemisphere'' (StrLit ''both'')]),
     ExprStmt (Call (Name ''print'') [Attr (Name ''mp_stereo'') ''axes_manager''])],
    \<comment> \<open>10: line 940\<close>
    [ExprStmt (Call (Attr (Name ''mp_stereo'') ''plot'') [])],
    \<comment> \<open>11: lines 961-962\<close>
    [ExprStmt (Call (Attr (Name ''mp_stereo'') ''plot_spherical'')
       [Keyword ''style'' (StrLit ''points'')])]]"

definition visualizing_notebook :: notebook where
  "visualizing_notebook =
     \<lparr>banner = ''This notebook is part of the `kikuchipy` documentation https://kikuchipy.org.'',
      code_cells = visualizing_cells,
      dependency_notes =
        [''`PyVista`, required for this interactive plot, is an optional dependency of kikuchipy; see [the installation guide](../user/installation.rst#with-pip) for details.''],
      language_name = ''python'',
      language_version = ''3.10.9''\<rparr>"

definition notebooks :: "notebook list" where
  "notebooks = [vbse_notebook, hough_notebook, visualizing_notebook]"

definition all_code_cells :: "stmt list list" where
  "all_code_cells = concat (map code_cells notebooks)"

subsection \<open>Reading the syntax of a cell\<close>


fun names_of :: "expr \<Rightarrow> string list" where
  "names_of (Name x) = [x]"
| "names_of (Call f args) = names_of f @ concat (map names_of args)"
| "names_of (FString es) = concat (map names_of es)"
| "names_of (Tuple es) = concat (map names_of es)"
| "names_of (ListLit es) = concat (map names_of es)"
| "names_of (DictLit ks vs) = concat (map names_of ks) @ concat (map names_of vs)"
| "names_of (Attr e a) = names_of e @ [a]"
| "names_of (Subscript e i) = names_of e @ names_of i"
| "names_of (Slice lo hi st) =
     (case lo of None \<Rightarrow> [] | Some e \<Rightarrow> names_of e)
     @ (case hi of None \<Rightarrow> [] | Some e \<Rightarrow> names_of e)
     @ (case st of None \<Rightarrow> [] | Some e \<Rightarrow> names_of e)"
| "names_of (Keyword k e) = names_of e"
| "names_of (Starred e) = names_of e"
| "names_of (BinOp l ope r) = names_of l @ names_of r"
| "names_of (Neg e) = names_of e"
| "names_of _ = []"

text \<open>
  \<open>all_stmts s\<close> is \<open>s\<close> with every statement nested in it (loop bodies, branches,
  handlers, definitions), \<open>stmt_exprs s\<close> the expressions in the head of \<open>s\<close>, and
  \<open>cell_stmts c\<close> every statement of a cell at any depth.
\<close>

fun all_stmts :: "stmt \<Rightarrow> stmt list" where
  "all_stmts (For t i b) = For t i b # concat (map all_stmts b)"
| "all_stmts (While c b) = While c b # concat (map all_stmts b)"
| "all_stmts (IfStmt c a b) =
     IfStmt c a b # concat (map all_stmts a) @ concat (map all_stmts b)"
| "all_stmts (Try b h f) =
     Try b h f # concat (map all_stmts b) @ concat (map all_stmts h) @ concat (map all_stmts f)"
| "all_stmts (With e b) = With e b # concat (map all_stmts b)"
| "all_stmts (FunctionDef n ps b) = FunctionDef n ps b # concat (map all_stmts b)"
| "all_stmts (ClassDef n b) = ClassDef n b # concat (map all_stmts b)"
| "all_stmts s = [s]"

fun stmt_exprs :: "stmt \<Rightarrow> expr list" where
  "stmt_exprs (Assign t e) = [t, e]"
| "stmt_exprs (ExprStmt e) = [e]"
| "stmt_exprs (Delete e) = [e]"
| "stmt_exprs (For t i b) = [t, i]"
| "stmt_exprs (While c b) = [c]"
| "stmt_exprs (IfStmt c a b) = [c]"
| "stmt_exprs (With e b) = [e]"
| "stmt_exprs (Raise e) = [e]"
| "stmt_exprs (Assert e) = [e]"
| "stmt_exprs (Return e) = [e]"
| "stmt_exprs _ = []"

definition cell_stmts :: "stmt list \<Rightarrow> stmt list" where
  "cell_stmts c = concat (map all_stmts c)"

definition stmt_names :: "stmt \<Rightarrow> string list" where
  "stmt_names s = concat (map names_of (concat (map stmt_exprs (all_stmts s))))"

text \<open>The modules a statement imports.\<close>

fun imported_modules :: "stmt \<Rightarrow> string list" where
  "imported_modules (Import m a) = [m]"
| "imported_modules (ImportFrom m ns) = [m]"
| "imported_modules _ = []"

text \<open>The kinds of statement the properties speak of.\<close>

fun is_definition :: "stmt \<Rightarrow> bool" where
  "is_definition (FunctionDef n ps b) = True"
| "is_definition (ClassDef n b) = True"
| "is_definition _ = False"

fun is_for :: "stmt \<Rightarrow> bool" where
  "is_for (For t i b) = True"
| "is_for _ = False"

fun simple_stmt :: "stmt \<Rightarrow> bool" where
  "simple_stmt (Magic m) = True"
| "simple_stmt (Import m a) = True"
| "simple_stmt (ImportFrom m ns) = True"
| "simple_stmt (Assign t e) = True"
| "simple_stmt (ExprStmt e) = True"
| "simple_stmt _ = False"

text \<open>
  Error handling in Python code: catching an exception (\<open>Try\<close>), releasing on failure
  (\<open>With\<close>), signalling a failure (\<open>Raise\<close>, \<open>Assert\<close>), branching on a condition
  (\<open>IfStmt\<close>), and retrying until a condition holds (\<open>While\<close>).
\<close>

fun failure_handling :: "stmt \<Rightarrow> bool" where
  "failure_handling (Try b h f) = True"
| "failure_handling (With e b) = True"
| "failure_handling (Raise e) = True"
| "failure_handling (Assert e) = True"
| "failure_handling (IfStmt c a b) = True"
| "failure_handling (While c b) = True"
| "failure_handling _ = False"

text \<open>
  The stores a statement makes into an object: the targets of an assignment, a loop or
  a deletion that are an attribute or an item of an object (a plain name only rebinds
  a variable of the session).
\<close>

fun target_stores :: "expr \<Rightarrow> expr list" where
  "target_stores (Attr e a) = [Attr e a]"
| "target_stores (Subscript e i) = [Subscript e i]"
| "target_stores (Tuple ts) = concat (map target_stores ts)"
| "target_stores (ListLit ts) = concat (map target_stores ts)"
| "target_stores (Starred t) = target_stores t"
| "target_stores _ = []"

fun object_stores :: "stmt \<Rightarrow> expr list" where
  "object_stores (Assign t e) = target_stores t"
| "object_stores (For t i b) = target_stores t"
| "object_stores (Delete t) = target_stores t"
| "object_stores _ = []"







fun root :: "expr \<Rightarrow> string option" where
  "root (Name x) = Some x"
| "root (Attr e a) = root e"
| "root (Call f args) = root f"
| "root (Subscript e i) = root e"
| "root _ = None"
















text \<open>The interpreter version: its first two components, split at the dots.\<close>

fun split_on :: "char \<Rightarrow> string \<Rightarrow> string list" where
  "split_on c [] = [[]]"
| "split_on c (x # xs) =
     (if x = c then [] # split_on c xs
      else (case split_on c xs of w # ws \<Rightarrow> (x # w) # ws | [] \<Rightarrow> [[x]]))"

definition major_minor :: "string \<Rightarrow> string list" where
  "major_minor v = take 2 (split_on CHR ''.'' v)"

definition build_python_version :: "string option" where
  "build_python_version =
     (case at_path [''build'', ''tools'', ''python''] readthedocs of
        Some (YStr v) \<Rightarrow> Some v
      | _ \<Rightarrow> None)"

text \<open>
  The files of the repository slice, by their paths from its root. The third notebook
  has no file of its own: it follows the Hough indexing notebook in that file.
\<close>

definition repository_slice :: "string list" where
  "repository_slice =
     [''readthedocs.yaml'',
      ''doc/tutorials/hough_indexing.ipynb'',
      ''doc/tutorials/virtual_backscatter_electron_imaging.ipynb'']"

section \<open>What the cells do to the file system\<close>

text \<open>
  A path is the list of its components; a file system is the set of its files and the
  set of its directories. The four operations through which the cells of the virtual
  imaging notebook reach it follow the Python documentation: \<^verbatim>\<open>tempfile.mkdtemp()\<close>
  creates a directory that did not exist, \<^verbatim>\<open>plt.imsave(path, ...)\<close> writes a file into
  an existing directory, \<^verbatim>\<open>os.remove(path)\<close> deletes a file, \<^verbatim>\<open>os.rmdir(path)\<close>
  deletes an empty directory; each raises where it cannot. The name \<^verbatim>\<open>mkdtemp\<close>
  settles on is a parameter \<open>d\<close> of the model.
\<close>

type_synonym path = "string list"

record filesystem =
  files :: "path set"
  dirs :: "path set"

datatype os_error =
    FileExistsError
  | FileNotFoundError
  | IsADirectoryError
  | NotADirectoryError
  | DirectoryNotEmpty
  | Unsupported

definition entries :: "filesystem \<Rightarrow> path set" where
  "entries fs = files fs \<union> dirs fs"

text \<open>
  The error for a path that is not there: its parent is a regular file, or the path is
  missing. \<open>parent_error\<close> is the error of creating an entry at a path, if any.
\<close>

definition missing_error :: "path \<Rightarrow> filesystem \<Rightarrow> os_error" where
  "missing_error p fs =
     (if p \<noteq> [] \<and> butlast p \<in> files fs then NotADirectoryError else FileNotFoundError)"

definition parent_error :: "path \<Rightarrow> filesystem \<Rightarrow> os_error option" where
  "parent_error p fs =
     (if p \<noteq> [] \<and> butlast p \<in> dirs fs then None else Some (missing_error p fs))"

definition mkdtemp :: "path \<Rightarrow> filesystem \<Rightarrow> os_error + filesystem" where
  "mkdtemp d fs =
     (if d \<in> entries fs then Inl FileExistsError
      else (case parent_error d fs of
              Some err \<Rightarrow> Inl err
            | None \<Rightarrow> Inr (fs\<lparr>dirs := insert d (dirs fs)\<rparr>)))"

definition imsave :: "path \<Rightarrow> filesystem \<Rightarrow> os_error + filesystem" where
  "imsave p fs =
     (if p \<in> dirs fs then Inl IsADirectoryError
      else (case parent_error p fs of
              Some err \<Rightarrow> Inl err
            | None \<Rightarrow> Inr (fs\<lparr>files := insert p (files fs)\<rparr>)))"

definition os_remove :: "path \<Rightarrow> filesystem \<Rightarrow> os_error + filesystem" where
  "os_remove p fs =
     (if p \<in> files fs then Inr (fs\<lparr>files := files fs - {p}\<rparr>)
      else if p \<in> dirs fs then Inl IsADirectoryError
      else Inl (missing_error p fs))"

definition os_rmdir :: "path \<Rightarrow> filesystem \<Rightarrow> os_error + filesystem" where
  "os_rmdir p fs =
     (if p \<in> dirs fs then
        (if p \<in> butlast ` (entries fs - {[]}) then Inl DirectoryNotEmpty
         else Inr (fs\<lparr>dirs := dirs fs - {p}\<rparr>))
      else if p \<in> files fs then Inl NotADirectoryError
      else Inl (missing_error p fs))"

text \<open>The part of a file system at or below a path, and the file system with nothing in it.\<close>

definition below :: "path \<Rightarrow> filesystem \<Rightarrow> filesystem" where
  "below d fs = \<lparr>files = Set.filter (prefix d) (files fs), dirs = Set.filter (prefix d) (dirs fs)\<rparr>"

definition nothing :: filesystem where
  "nothing = \<lparr>files = {}, dirs = {}\<rparr>"

text \<open>
  The interpreter of the cells over the file system. Its state holds the variables
  bound to a path and the file system. The names through which the cells reach the
  file system themselves are those of \<open>file_api\<close>.

  A statement that mentions none of these names and no variable bound to a path runs
  library code only (an import, a call into a library, a plotting loop). What library
  code does to the file system is not in the repository slice: it is the parameter
  \<open>lib\<close>, a function of the position of the statement in the run, the statement and
  the file system it meets, and nothing is assumed of it.

  Any other statement is run by \<open>fs_eval\<close>, which knows the four operations above,
  the \<^verbatim>\<open>Path(...)\<close> constructor and the \<^verbatim>\<open>/\<close> operator on paths; inside such a
  statement, an expression that mentions no name of \<open>file_api\<close> and no path variable
  is a value that is not a path. Everything else is \<open>Unsupported\<close>.
\<close>

datatype fs_val = PathV path | Other

record fs_state =
  bound :: "(string \<times> path) list"
  fsys :: filesystem

definition file_api :: "string list" where
  "file_api = [''tempfile'', ''mkdtemp'', ''Path'', ''imsave'', ''os'', ''remove'', ''rmdir'']"

definition fs_free :: "fs_state \<Rightarrow> string list \<Rightarrow> bool" where
  "fs_free st ns = list_all (\<lambda>n. n \<notin> set file_api \<and> n \<notin> set (map fst (bound st))) ns"

definition no_path :: "expr \<Rightarrow> fs_state \<Rightarrow> os_error + (fs_val \<times> fs_state)" where
  "no_path e st = (if fs_free st (names_of e) then Inr (Other, st) else Inl Unsupported)"

definition on_fs ::
  "(filesystem \<Rightarrow> os_error + filesystem) \<Rightarrow> fs_state \<Rightarrow> os_error + (fs_val \<times> fs_state)" where
  "on_fs f st = (case f (fsys st) of Inl err \<Rightarrow> Inl err | Inr fs \<Rightarrow> Inr (Other, st\<lparr>fsys := fs\<rparr>))"

fun fs_eval :: "path \<Rightarrow> expr \<Rightarrow> fs_state \<Rightarrow> os_error + (fs_val \<times> fs_state)" where
  "fs_eval d (Name x) st =
     (case map_of (bound st) x of
        Some p \<Rightarrow> Inr (PathV p, st)
      | None \<Rightarrow> no_path (Name x) st)"
| "fs_eval d (BinOp l OpDiv (StrLit n)) st =
     (case fs_eval d l st of
        Inl err \<Rightarrow> Inl err
      | Inr (PathV p, st') \<Rightarrow> Inr (PathV (p @ [n]), st')
      | Inr (Other, st') \<Rightarrow> Inr (Other, st'))"
| "fs_eval d (Call f args) st =
     (if f = Attr (Name ''tempfile'') ''mkdtemp'' \<and> args = [] then
        (case mkdtemp d (fsys st) of
           Inl err \<Rightarrow> Inl err
         | Inr fs \<Rightarrow> Inr (PathV d, st\<lparr>fsys := fs\<rparr>))
      else if f = Name ''Path'' then
        (case args of [a] \<Rightarrow> fs_eval d a st | _ \<Rightarrow> Inl Unsupported)
      else if f = Attr (Name ''plt'') ''imsave'' then
        (case args of
           a # kws \<Rightarrow>
             (if fs_free st (concat (map names_of kws)) then
                (case fs_eval d a st of
                   Inl err \<Rightarrow> Inl err
                 | Inr (PathV p, st') \<Rightarrow> on_fs (imsave p) st'
                 | Inr (Other, st') \<Rightarrow> Inl Unsupported)
              else Inl Unsupported)
         | [] \<Rightarrow> Inl Unsupported)
      else if f = Attr (Name ''os'') ''remove'' then
        (case args of
           [a] \<Rightarrow>
             (case fs_eval d a st of
                Inl err \<Rightarrow> Inl err
              | Inr (PathV p, st') \<Rightarrow> on_fs (os_remove p) st'
              | Inr (Other, st') \<Rightarrow> Inl Unsupported)
         | _ \<Rightarrow> Inl Unsupported)
      else if f = Attr (Name ''os'') ''rmdir'' then
        (case args of
           [a] \<Rightarrow>
             (case fs_eval d a st of
                Inl err \<Rightarrow> Inl err
              | Inr (PathV p, st') \<Rightarrow> on_fs (os_rmdir p) st'
              | Inr (Other, st') \<Rightarrow> Inl Unsupported)
         | _ \<Rightarrow> Inl Unsupported)
      else no_path (Call f args) st)"
| "fs_eval d e st = no_path e st"

text \<open>
  Binding the target of an assignment: a name is bound to the path assigned to it, or
  loses its binding when the value is not a path; any other target is passed over if it
  mentions no file name and no path variable.
\<close>

definition unbind :: "string \<Rightarrow> (string \<times> path) list \<Rightarrow> (string \<times> path) list" where
  "unbind x bs = filter (\<lambda>b. fst b \<noteq> x) bs"

fun bind_target :: "expr \<Rightarrow> fs_val \<Rightarrow> fs_state \<Rightarrow> os_error + fs_state" where
  "bind_target (Name x) (PathV p) st = Inr (st\<lparr>bound := (x, p) # unbind x (bound st)\<rparr>)"
| "bind_target (Name x) Other st = Inr (st\<lparr>bound := unbind x (bound st)\<rparr>)"
| "bind_target t v st = (if fs_free st (names_of t) then Inr st else Inl Unsupported)"

type_synonym library = "nat \<Rightarrow> stmt \<Rightarrow> filesystem \<Rightarrow> filesystem"

fun fs_exec :: "library \<Rightarrow> path \<Rightarrow> nat \<Rightarrow> stmt \<Rightarrow> fs_state \<Rightarrow> os_error + fs_state" where
  "fs_exec lib d n (Assign t e) st =
     (if fs_free st (stmt_names (Assign t e)) then Inr (st\<lparr>fsys := lib n (Assign t e) (fsys st)\<rparr>)
      else (case fs_eval d e st of
              Inl err \<Rightarrow> Inl err
            | Inr (v, st') \<Rightarrow> bind_target t v st'))"
| "fs_exec lib d n (ExprStmt e) st =
     (if fs_free st (stmt_names (ExprStmt e)) then Inr (st\<lparr>fsys := lib n (ExprStmt e) (fsys st)\<rparr>)
      else (case fs_eval d e st of
              Inl err \<Rightarrow> Inl err
            | Inr (v, st') \<Rightarrow> Inr st'))"
| "fs_exec lib d n s st =
     (if fs_free st (stmt_names s) then Inr (st\<lparr>fsys := lib n s (fsys st)\<rparr>)
      else Inl Unsupported)"

fun fs_run :: "library \<Rightarrow> path \<Rightarrow> nat \<Rightarrow> stmt list \<Rightarrow> fs_state \<Rightarrow> os_error + fs_state" where
  "fs_run lib d n [] st = Inr st"
| "fs_run lib d n (s # ss) st =
     (case fs_exec lib d n s st of
        Inl err \<Rightarrow> Inl err
      | Inr st' \<Rightarrow> fs_run lib d (Suc n) ss st')"

text \<open>Running a notebook runs the statements of its cells in order, in one session.\<close>

definition run_notebook :: "library \<Rightarrow> path \<Rightarrow> notebook \<Rightarrow> filesystem \<Rightarrow> os_error + fs_state" where
  "run_notebook lib d nb fs = fs_run lib d 0 (concat (code_cells nb)) \<lparr>bound = [], fsys = fs\<rparr>"

text \<open>What library code alone makes of a file system over a run of statements.\<close>

fun lib_steps :: "library \<Rightarrow> nat \<Rightarrow> stmt list \<Rightarrow> filesystem \<Rightarrow> filesystem" where
  "lib_steps lib n [] fs = fs"
| "lib_steps lib n (s # ss) fs = lib_steps lib (Suc n) ss (lib n s fs)"

text \<open>
  The stages of the run of the virtual imaging notebook. Cells 0 to 2 run library code
  only; cell 3 creates the temporary directory and writes the image into it; cells 4
  to 16 and the import that opens cell 17 run library code only; the rest of cell 17
  removes the image and the directory.
\<close>

definition image_file :: "path \<Rightarrow> path" where
  "image_file d = d @ [''vbse1.png'']"

definition before_temp :: "library \<Rightarrow> filesystem \<Rightarrow> filesystem" where
  "before_temp lib fs = lib_steps lib 0 (concat (take 3 (code_cells vbse_notebook))) fs"

definition with_temp :: "library \<Rightarrow> path \<Rightarrow> filesystem \<Rightarrow> filesystem" where
  "with_temp lib d fs =
     (before_temp lib fs)
       \<lparr>dirs := insert d (dirs (before_temp lib fs)),
        files := insert (image_file d) (files (before_temp lib fs))\<rparr>"

definition until_cleanup :: "library \<Rightarrow> filesystem \<Rightarrow> filesystem" where
  "until_cleanup lib fs =
     lib_steps lib (length (concat (take 4 (code_cells vbse_notebook))))
       (concat (take 13 (drop 4 (code_cells vbse_notebook))) @ [Import ''os'' None]) fs"

definition before_cleanup :: "library \<Rightarrow> path \<Rightarrow> filesystem \<Rightarrow> filesystem" where
  "before_cleanup lib d fs = until_cleanup lib (with_temp lib d fs)"

definition after_cleanup :: "library \<Rightarrow> path \<Rightarrow> filesystem \<Rightarrow> filesystem" where
  "after_cleanup lib d fs =
     (before_cleanup lib d fs)
       \<lparr>files := files (before_cleanup lib d fs) - {image_file d},
        dirs := dirs (before_cleanup lib d fs) - {d}\<rparr>"

text \<open>
  A library whose only effect on the file system is that of the call that loads the
  data set in the first cell, \<^verbatim>\<open>kp.data.nickel_ebsd_large(allow_download=True)\<close>
  (line 64, with the comment "External download"; the markdown before it speaks of
  "a 13 MB Nickel EBSD data set"): on a machine that does not hold the data set, it
  keeps what it downloads as a file of a cache directory, made with its parents if
  missing. The paths are examples.
\<close>

definition cached_download :: "filesystem \<Rightarrow> filesystem" where
  "cached_download fs =
     fs\<lparr>files := insert [''cache'', ''kikuchipy'', ''patterns.h5''] (files fs),
        dirs := {[], [''cache''], [''cache'', ''kikuchipy'']} \<union> dirs fs\<rparr>"

definition download_only :: library where
  "download_only n s fs =
     (if s = Assign (Name ''s'')
               (Call (Attr (Attr (Name ''kp'') ''data'') ''nickel_ebsd_large'')
                  [Keyword ''allow_download'' (BoolLit True)])
      then cached_download fs else fs)"

definition fresh_machine :: filesystem where
  "fresh_machine = \<lparr>files = {}, dirs = {[], [''tmp'']}\<rparr>"

definition temp_name :: path where
  "temp_name = [''tmp'', ''tmpab12cd'']"

section \<open>The file operations of the virtual imaging notebook\<close>

text \<open>
  Whatever library code does and whatever name \<^verbatim>\<open>mkdtemp\<close> settles on, the cells
  themselves act on the file system through exactly four operations, in this order,
  with library code running before, between and after them, and bind one path variable.
\<close>

lemma vbse_file_operations:
  "run_notebook lib d vbse_notebook fs =
     (case mkdtemp d (before_temp lib fs) of
        Inl err \<Rightarrow> Inl err
      | Inr f1 \<Rightarrow>
          (case imsave (image_file d) f1 of
             Inl err \<Rightarrow> Inl err
           | Inr f2 \<Rightarrow>
               (case os_remove (image_file d) (until_cleanup lib f2) of
                  Inl err \<Rightarrow> Inl err
                | Inr f3 \<Rightarrow>
                    (case os_rmdir d f3 of
                       Inl err \<Rightarrow> Inl err
                     | Inr f4 \<Rightarrow> Inr \<lparr>bound = [(''temp_dir'', d)], fsys = f4\<rparr>))))"
  by (simp add: run_notebook_def before_temp_def until_cleanup_def image_file_def
        vbse_notebook_def vbse_cells_def no_path_def fs_free_def
        file_api_def on_fs_def unbind_def stmt_names_def split: sum.splits)

text \<open>Library code that leaves a directory alone leaves it alone over any run of statements.\<close>

lemma lib_steps_below:
  assumes "\<And>n s fs. below d (lib n s fs) = below d fs"
  shows "below d (lib_steps lib n ss fs) = below d fs"
proof (induction ss arbitrary: n fs)
  case Nil
  show ?case by simp
next
  case (Cons s ss)
  have "below d (lib_steps lib (Suc n) ss (lib n s fs)) = below d (lib n s fs)"
    by (rule Cons.IH)
  with assms show ?case by simp
qed

lemma lib_steps_keeps_dir:
  assumes "\<And>n s fs. r \<in> dirs fs \<Longrightarrow> r \<in> dirs (lib n s fs)"
    and "r \<in> dirs fs"
  shows "r \<in> dirs (lib_steps lib n ss fs)"
  using assms(2)
proof (induction ss arbitrary: n fs)
  case Nil
  then show ?case by simp
next
  case (Cons s ss)
  from Cons.prems have "r \<in> dirs (lib n s fs)"
    by (rule assms(1))
  then show ?case
    using Cons.IH by simp
qed

lemma below_files: "files (below d fs) = Set.filter (prefix d) (files fs)"
  by (simp add: below_def)

lemma below_dirs: "dirs (below d fs) = Set.filter (prefix d) (dirs fs)"
  by (simp add: below_def)

lemma nothing_below:
  assumes "below d fs = nothing" and "prefix d p"
  shows "p \<notin> files fs" and "p \<notin> dirs fs"
proof -
  from assms(1) have "files (below d fs) = {}" and "dirs (below d fs) = {}"
    by (simp_all add: nothing_def)
  with assms(2) show "p \<notin> files fs" and "p \<notin> dirs fs"
    by (auto simp: below_files below_dirs)
qed

lemma butlast_differs:
  assumes "d \<noteq> []"
  shows "butlast d \<noteq> d"
proof (cases d)
  case Nil
  with assms show ?thesis
    by simp
next
  case (Cons x xs)
  then have "length (butlast d) < length d"
    by simp
  then show ?thesis
    by (metis less_irrefl)
qed

lemma child_is_below:
  assumes "p \<noteq> []" and "butlast p = d"
  shows "prefix d p"
proof -
  have "p = butlast p @ [last p]"
    using assms(1) by simp
  with assms(2) have "p = d @ [last p]"
    by simp
  then show ?thesis
    by (metis prefixI)
qed

lemma temp_is_made:
  assumes "below d fs = nothing" and "d \<noteq> []" and "butlast d \<in> dirs fs"
  shows "mkdtemp d fs = Inr (fs\<lparr>dirs := insert d (dirs fs)\<rparr>)"
proof -
  have "d \<notin> entries fs"
    using nothing_below [OF assms(1), of d] by (simp add: entries_def)
  with assms(2,3) show ?thesis
    by (simp add: mkdtemp_def parent_error_def)
qed

lemma image_is_written:
  assumes "below d fs = nothing"
  shows "imsave (image_file d) (fs\<lparr>dirs := insert d (dirs fs)\<rparr>) =
           Inr (fs\<lparr>dirs := insert d (dirs fs), files := insert (image_file d) (files fs)\<rparr>)"
proof -
  have "image_file d \<notin> dirs fs"
    using nothing_below(2) [OF assms, of "image_file d"] by (simp add: image_file_def)
  moreover have "image_file d \<noteq> d" and "image_file d \<noteq> []" and "butlast (image_file d) = d"
    by (simp_all add: image_file_def)
  ultimately show ?thesis
    by (simp add: imsave_def parent_error_def)
qed

lemma below_with_temp:
  assumes "below d fs = nothing"
  shows "below d (fs\<lparr>dirs := insert d (dirs fs), files := insert (image_file d) (files fs)\<rparr>) =
           \<lparr>files = {image_file d}, dirs = {d}\<rparr>"
proof -
  from assms have "Set.filter (prefix d) (files fs) = {}" and "Set.filter (prefix d) (dirs fs) = {}"
    by (simp_all add: below_def nothing_def)
  then have "Set.filter (prefix d) (insert (image_file d) (files fs)) = {image_file d}"
    and "Set.filter (prefix d) (insert d (dirs fs)) = {d}"
    by (auto simp: image_file_def)
  then show ?thesis
    by (simp add: below_def)
qed

lemma image_is_removed:
  assumes "below d fs = \<lparr>files = {image_file d}, dirs = {d}\<rparr>"
  shows "os_remove (image_file d) fs = Inr (fs\<lparr>files := files fs - {image_file d}\<rparr>)"
proof -
  from assms have "Set.filter (prefix d) (files fs) = {image_file d}"
    by (simp add: below_def)
  then have "image_file d \<in> files fs"
    by auto
  then show ?thesis
    by (simp add: os_remove_def)
qed

lemma temp_is_removed:
  assumes "below d fs = \<lparr>files = {image_file d}, dirs = {d}\<rparr>" and "d \<noteq> []"
  shows "os_rmdir d (fs\<lparr>files := files fs - {image_file d}\<rparr>) =
           Inr (fs\<lparr>files := files fs - {image_file d}, dirs := dirs fs - {d}\<rparr>)"
proof -
  from assms(1) have fl: "Set.filter (prefix d) (files fs) = {image_file d}"
    and dr: "Set.filter (prefix d) (dirs fs) = {d}"
    by (simp_all add: below_def)
  from dr have "d \<in> dirs fs"
    by auto
  moreover have "d \<notin> butlast ` (entries (fs\<lparr>files := files fs - {image_file d}\<rparr>) - {[]})"
  proof
    assume "d \<in> butlast ` (entries (fs\<lparr>files := files fs - {image_file d}\<rparr>) - {[]})"
    then obtain p where p: "p \<in> files fs - {image_file d} \<or> p \<in> dirs fs" "p \<noteq> []" "butlast p = d"
      by (auto simp: entries_def)
    then have "prefix d p"
      using child_is_below by blast
    with p(1) fl dr have "p = d"
      by auto
    with p(3) butlast_differs [OF assms(2)] show False
      by simp
  qed
  ultimately show ?thesis
    by (simp add: os_rmdir_def)
qed

lemma below_after_removal:
  assumes "below d fs = \<lparr>files = {image_file d}, dirs = {d}\<rparr>"
  shows "below d (fs\<lparr>files := files fs - {image_file d}, dirs := dirs fs - {d}\<rparr>) = nothing"
proof -
  from assms have "Set.filter (prefix d) (files fs) = {image_file d}"
    and "Set.filter (prefix d) (dirs fs) = {d}"
    by (simp_all add: below_def)
  then have "Set.filter (prefix d) (files fs - {image_file d}) = {}"
    and "Set.filter (prefix d) (dirs fs - {d}) = {}"
    by auto
  then show ?thesis
    by (simp add: below_def nothing_def)
qed

section \<open>Properties of the build configuration\<close>

text \<open>
  C1, as claimed: the configuration declares the Sphinx configuration file
  \<^verbatim>\<open>doc/conf.py\<close> and that file is one of the files of the repository slice. The
  second half fails: the slice holds the build configuration and the tutorials only.
\<close>

theorem sphinx_conf_in_slice_counterexample:
  "\<not> (at_path [''sphinx'', ''configuration''] readthedocs = Some (YStr ''doc/conf.py'')
      \<and> ''doc/conf.py'' \<in> set repository_slice)"
  by (simp add: repository_slice_def)

text \<open>
  C1, amended: the configuration declares the Sphinx configuration file
  \<^verbatim>\<open>doc/conf.py\<close>, and it is the only key of the \<^verbatim>\<open>sphinx\<close> section; the file is not
  among the files of the slice, whose notebooks lie below the same \<^verbatim>\<open>doc/\<close> directory.
\<close>

theorem sphinx_conf_declared:
  "at_path [''sphinx'', ''configuration''] readthedocs = Some (YStr ''doc/conf.py'')
   \<and> map_option keys (field ''sphinx'' readthedocs) = Some [''configuration'']
   \<and> ''doc/conf.py'' \<notin> set repository_slice
   \<and> filter (prefix ''doc/'') repository_slice =
       [''doc/tutorials/hough_indexing.ipynb'',
        ''doc/tutorials/virtual_backscatter_electron_imaging.ipynb'']"
  by (simp add: readthedocs_def repository_slice_def)

text \<open>
  C4. The package-installation step has exactly one entry: a pip installation of the
  path \<^verbatim>\<open>.\<close> (the project itself) with exactly the two extra dependency groups
  \<^verbatim>\<open>doc\<close> and \<^verbatim>\<open>viz\<close>, and \<^verbatim>\<open>install\<close> is the only key of the \<^verbatim>\<open>python\<close> section.
\<close>

theorem install_project_with_doc_viz:
  "at_path [''python'', ''install''] readthedocs =
     Some (YSeq [YMap [(''method'', YStr ''pip''),
                       (''path'', YStr ''.''),
                       (''extra_requirements'', YSeq [YStr ''doc'', YStr ''viz''])]])
   \<and> map_option keys (field ''python'' readthedocs) = Some [''install'']"
  by (simp add: readthedocs_def)

text \<open>
  C5. The list of requested output formats has exactly one entry, \<^verbatim>\<open>htmlzip\<close>: it is
  what the source lines of the block denote, the \<^verbatim>\<open>pdf\<close> line of the block is a
  comment, and neither \<^verbatim>\<open>pdf\<close> nor \<^verbatim>\<open>epub\<close> is among the entries.
\<close>

theorem formats_only_htmlzip:
  "at_path [''formats''] readthedocs = Some (YSeq [YStr ''htmlzip''])
   \<and> block_seq_items (tl formats_src) = [''htmlzip'']
   \<and> last formats_src = ''#  - pdf''
   \<and> is_comment_line (last formats_src)
   \<and> ''pdf'' \<notin> set (block_seq_items (tl formats_src))
   \<and> ''epub'' \<notin> set (block_seq_items (tl formats_src))"
  by (simp add: readthedocs_def formats_src_def block_seq_items_def List.map_filter_def
        seq_item_def is_comment_line_def lstrip_def)

text \<open>
  C6. The system packages are listed under \<^verbatim>\<open>build.apt_packages\<close>, and the list is
  exactly imagemagick, libgl1-mesa-dev, xvfb.
\<close>

theorem apt_packages_exact:
  "at_path [''build'', ''apt_packages''] readthedocs =
     Some (YSeq [YStr ''imagemagick'', YStr ''libgl1-mesa-dev'', YStr ''xvfb''])"
  by (simp add: readthedocs_def)

text \<open>
  C7. The build section names one OS image, \<^verbatim>\<open>ubuntu-22.04\<close>, and its tools mapping
  has exactly two entries: python at version "3.10" and nodejs at version "19".
\<close>

theorem build_os_and_tools:
  "at_path [''build'', ''os''] readthedocs = Some (YStr ''ubuntu-22.04'')
   \<and> at_path [''build'', ''tools''] readthedocs =
       Some (YMap [(''python'', YStr ''3.10''), (''nodejs'', YStr ''19'')])"
  by (simp add: readthedocs_def)

text \<open>
  C10. The Python version the build installs is "3.10"; every notebook records the
  kernel version 3.10.9; the two agree in their first two components, 3 and 10.
\<close>

theorem build_python_matches_kernels:
  "build_python_version = Some ''3.10''
   \<and> map language_version notebooks = [''3.10.9'', ''3.10.9'', ''3.10.9'']
   \<and> map language_name notebooks = [''python'', ''python'', ''python'']
   \<and> map_option major_minor build_python_version = Some [''3'', ''10'']
   \<and> map (\<lambda>nb. Some (major_minor (language_version nb))) notebooks =
       replicate 3 (map_option major_minor build_python_version)"
  by (simp add: build_python_version_def readthedocs_def notebooks_def vbse_notebook_def
        hough_notebook_def visualizing_notebook_def major_minor_def numeral_3_eq_3)

section \<open>Properties of the notebooks\<close>

text \<open>
  C2, as claimed: no cell mutates an object; every object a cell refers to is only read
  or passed on, so no statement of a cell has an attribute or an item of an object as
  the target of an assignment. It fails for the cell of line 394 of the Hough indexing
  notebook, \<^verbatim>\<open>det.pc = det.pc_average\<close>, which is one assignment to the attribute
  \<^verbatim>\<open>pc\<close> of the detector.
\<close>

theorem objects_read_only_counterexample:
  "code_cells hough_notebook ! 15 =
     [Assign (Attr (Name ''det'') ''pc'') (Attr (Name ''det'') ''pc_average'')]
   \<and> concat (map object_stores (cell_stmts (code_cells hough_notebook ! 15))) =
       [Attr (Name ''det'') ''pc'']
   \<and> \<not> list_all (\<lambda>c. concat (map object_stores (cell_stmts c)) = []) all_code_cells"
  by (simp add: all_code_cells_def notebooks_def vbse_notebook_def hough_notebook_def
        visualizing_notebook_def vbse_cells_def hough_cells_def visualizing_cells_def
        cell_stmts_def)

text \<open>
  C2, amended: no code cell defines a function or a class, so every object the cells
  refer to is made by library code. The cells do not use all of them read-only: five
  statements assign to an attribute or an item of an object (the font size of the
  plot settings, the grid shape of the virtual imager twice, the projection centre of
  the detector, the direction of the colour key), in cells 0, 6 and 9 of the virtual
  imaging notebook and cells 15 and 23 of the Hough indexing notebook. What such an
  assignment, or a library call, does to the state of the object is library code
  outside the slice.
\<close>

theorem cells_store_into_objects:
  "list_all (\<lambda>s. \<not> is_definition s) (cell_stmts (concat all_code_cells))
   \<and> concat (map object_stores (cell_stmts (concat all_code_cells))) =
       [Subscript (Attr (Name ''plt'') ''rcParams'') (StrLit ''font.size''),
        Attr (Name ''vbse_imager'') ''grid_shape'',
        Attr (Name ''vbse_imager'') ''grid_shape'',
        Attr (Name ''det'') ''pc'',
        Attr (Name ''ckey'') ''direction'']
   \<and> map (\<lambda>nb. filter (\<lambda>i. concat (map object_stores (cell_stmts (code_cells nb ! i))) \<noteq> [])
                  [0..<length (code_cells nb)]) notebooks
       = [[0, 6, 9], [15, 23], []]"
proof -
  have "list_all (\<lambda>s. \<not> is_definition s) (cell_stmts (concat all_code_cells))"
    by (simp add: all_code_cells_def notebooks_def vbse_notebook_def hough_notebook_def
          visualizing_notebook_def vbse_cells_def hough_cells_def visualizing_cells_def
          cell_stmts_def)
  moreover have "concat (map object_stores (cell_stmts (concat all_code_cells))) =
       [Subscript (Attr (Name ''plt'') ''rcParams'') (StrLit ''font.size''),
        Attr (Name ''vbse_imager'') ''grid_shape'',
        Attr (Name ''vbse_imager'') ''grid_shape'',
        Attr (Name ''det'') ''pc'',
        Attr (Name ''ckey'') ''direction'']"
    by (simp add: all_code_cells_def notebooks_def vbse_notebook_def hough_notebook_def
          visualizing_notebook_def vbse_cells_def hough_cells_def visualizing_cells_def
          cell_stmts_def)
  moreover have "map (\<lambda>nb. filter (\<lambda>i. concat (map object_stores (cell_stmts (code_cells nb ! i))) \<noteq> [])
                  [0..<length (code_cells nb)]) notebooks
       = [[0, 6, 9], [15, 23], []]"
    by (simp add: notebooks_def vbse_notebook_def hough_notebook_def
          visualizing_notebook_def vbse_cells_def hough_cells_def visualizing_cells_def
          cell_stmts_def upt_rec [of _ "numeral n" for n] upt_rec [of _ "Suc n" for n])
  ultimately show ?thesis
    by blast
qed

text \<open>
  C3. No statement of any code cell, at any depth, catches or signals an exception,
  branches on a condition or retries in a loop: every statement of every cell is a
  simple statement or a \<^verbatim>\<open>for\<close> loop. No code checks whether a dependency is
  there: \<^verbatim>\<open>pyvista\<close> is imported by a plain \<^verbatim>\<open>import\<close> statement of the first cell
  of the visualizing notebook, and the Hough indexing notebook does not import
  PyEBSDIndex at all (it reaches it through \<^verbatim>\<open>kikuchipy\<close>).
  That a dependency is optional is said in the markdown prose only: once in the
  Hough indexing notebook (PyEBSDIndex) and once in the visualizing notebook (PyVista).
\<close>

theorem no_error_handling_in_cells:
  "list_all (\<lambda>s. \<not> failure_handling s) (cell_stmts (concat all_code_cells))
   \<and> list_all (\<lambda>s. simple_stmt s \<or> is_for s) (cell_stmts (concat all_code_cells))
   \<and> Import ''pyvista'' None \<in> set (code_cells visualizing_notebook ! 0)
   \<and> concat (map imported_modules (cell_stmts (concat (code_cells visualizing_notebook)))) =
       [''matplotlib.pyplot'', ''numpy'', ''pyvista'', ''skimage.exposure'',
        ''skimage.transform'', ''hyperspy.api'', ''kikuchipy'', ''orix'']
   \<and> concat (map imported_modules (cell_stmts (concat (code_cells hough_notebook)))) =
       [''matplotlib.pyplot'', ''numpy'', ''diffpy.structure'', ''diffsims.crystallography'',
        ''kikuchipy'', ''orix'', ''orix.crystal_map'', ''orix.vector'']
   \<and> map (\<lambda>nb. length (dependency_notes nb)) notebooks = [0, 1, 1]
   \<and> prefix ''PyEBSDIndex is an optional dependency'' (dependency_notes hough_notebook ! 0)
   \<and> prefix ''`PyVista`, required for this interactive plot, is an optional dependency''
        (dependency_notes visualizing_notebook ! 0)"
  by (simp add: all_code_cells_def notebooks_def vbse_notebook_def hough_notebook_def
        visualizing_notebook_def vbse_cells_def hough_cells_def visualizing_cells_def
        cell_stmts_def)



text \<open>
  C9, as claimed: after the virtual imaging notebook has run, the file system is as it
  was before. It fails on a machine that does not hold the data set yet, with a
  library that keeps its download in a cache: the notebook runs to its end, and the
  file system then holds the cached data set.
\<close>

theorem filesystem_unchanged_counterexample:
  "run_notebook download_only temp_name vbse_notebook fresh_machine =
     Inr \<lparr>bound = [(''temp_dir'', temp_name)], fsys = cached_download fresh_machine\<rparr>
   \<and> cached_download fresh_machine \<noteq> fresh_machine"
proof -
  have "files (cached_download fresh_machine) \<noteq> files fresh_machine"
    by (simp add: cached_download_def fresh_machine_def)
  then have "cached_download fresh_machine \<noteq> fresh_machine"
    by metis
  moreover have "run_notebook download_only temp_name vbse_notebook fresh_machine =
     Inr \<lparr>bound = [(''temp_dir'', temp_name)], fsys = cached_download fresh_machine\<rparr>"
    unfolding vbse_file_operations
    by (auto simp: before_temp_def until_cleanup_def vbse_notebook_def vbse_cells_def
          download_only_def cached_download_def fresh_machine_def temp_name_def image_file_def
          mkdtemp_def imsave_def os_remove_def os_rmdir_def parent_error_def entries_def)
  ultimately show ?thesis
    by blast
qed

text \<open>
  C9, amended: the cells of the virtual imaging notebook reach the file system
  themselves in four statements only: one creates a temporary directory, one writes
  \<^verbatim>\<open>vbse1.png\<close> into it, and the last two, in the final cell, remove that file and
  that directory. If library code leaves the temporary directory alone (and does not
  delete the directory it is created in), the notebook runs to its end without an
  error, the file and the directory are there, alone below the directory, until the
  final cell, and nothing is at or below the directory afterwards. Outside the
  temporary directory the file system is what library code (the imports, the data
  set download, the plotting) made of it, which the slice does not determine.
\<close>

theorem notebook_cleans_up:
  assumes "\<And>n s fs. below d (lib n s fs) = below d fs"
    and "\<And>n s fs. butlast d \<in> dirs fs \<Longrightarrow> butlast d \<in> dirs (lib n s fs)"
    and "below d fs = nothing"
    and "d \<noteq> []"
    and "butlast d \<in> dirs fs"
  shows "filter (\<lambda>s. list_ex (\<lambda>n. n \<in> set (''temp_dir'' # file_api)) (stmt_names s))
           (concat (code_cells vbse_notebook)) =
           code_cells vbse_notebook ! 3 @ drop 1 (last (code_cells vbse_notebook))
   \<and> run_notebook lib d vbse_notebook fs =
       Inr \<lparr>bound = [(''temp_dir'', d)], fsys = after_cleanup lib d fs\<rparr>
   \<and> below d (before_cleanup lib d fs) = \<lparr>files = {image_file d}, dirs = {d}\<rparr>
   \<and> below d (after_cleanup lib d fs) = nothing"
proof -
  let ?b = "before_temp lib fs"
  let ?c = "before_cleanup lib d fs"
  have b_below: "below d ?b = nothing"
    unfolding before_temp_def using lib_steps_below [of d lib] assms(1,3) by simp
  have b_root: "butlast d \<in> dirs ?b"
    unfolding before_temp_def using lib_steps_keeps_dir [of "butlast d" lib] assms(2,5) by blast
  have made: "mkdtemp d ?b = Inr (?b\<lparr>dirs := insert d (dirs ?b)\<rparr>)"
    by (rule temp_is_made [OF b_below assms(4) b_root])
  have written: "imsave (image_file d) (?b\<lparr>dirs := insert d (dirs ?b)\<rparr>) = Inr (with_temp lib d fs)"
    using image_is_written [OF b_below] by (simp add: with_temp_def)
  have "below d (with_temp lib d fs) = \<lparr>files = {image_file d}, dirs = {d}\<rparr>"
    using below_with_temp [OF b_below] by (simp add: with_temp_def)
  then have c_below: "below d ?c = \<lparr>files = {image_file d}, dirs = {d}\<rparr>"
    unfolding before_cleanup_def until_cleanup_def using lib_steps_below [of d lib] assms(1)
    by simp
  have removed: "os_remove (image_file d) ?c = Inr (?c\<lparr>files := files ?c - {image_file d}\<rparr>)"
    by (rule image_is_removed [OF c_below])
  have emptied: "os_rmdir d (?c\<lparr>files := files ?c - {image_file d}\<rparr>) = Inr (after_cleanup lib d fs)"
    using temp_is_removed [OF c_below assms(4)] by (simp add: after_cleanup_def)
  have run: "run_notebook lib d vbse_notebook fs =
      Inr \<lparr>bound = [(''temp_dir'', d)], fsys = after_cleanup lib d fs\<rparr>"
    unfolding vbse_file_operations
    by (simp add: made written removed emptied before_cleanup_def [symmetric])
  have gone: "below d (after_cleanup lib d fs) = nothing"
    using below_after_removal [OF c_below] by (simp add: after_cleanup_def)
  have four: "filter (\<lambda>s. list_ex (\<lambda>n. n \<in> set (''temp_dir'' # file_api)) (stmt_names s))
           (concat (code_cells vbse_notebook)) =
           code_cells vbse_notebook ! 3 @ drop 1 (last (code_cells vbse_notebook))"
    by (simp add: vbse_notebook_def vbse_cells_def file_api_def stmt_names_def)
  from four run c_below gone show ?thesis
    by blast
qed

theorem notebook_cleans_up_witness:
  "below temp_name fresh_machine = nothing
   \<and> temp_name \<noteq> []
   \<and> butlast temp_name \<in> dirs fresh_machine
   \<and> run_notebook download_only temp_name vbse_notebook fresh_machine =
       Inr \<lparr>bound = [(''temp_dir'', temp_name)],
            fsys = after_cleanup download_only temp_name fresh_machine\<rparr>
   \<and> below temp_name (after_cleanup download_only temp_name fresh_machine) = nothing"
proof -
  have frame: "below temp_name (download_only n s fs) = below temp_name fs" for n s fs
    by (auto simp: download_only_def cached_download_def below_def temp_name_def)
  have root: "butlast temp_name \<in> dirs fs \<Longrightarrow> butlast temp_name \<in> dirs (download_only n s fs)"
    for n s fs
    by (simp add: download_only_def cached_download_def)
  have empty: "below temp_name fresh_machine = nothing"
    by (auto simp: below_def nothing_def fresh_machine_def temp_name_def)
  have nonempty: "temp_name \<noteq> []"
    by (simp add: temp_name_def)
  have parent: "butlast temp_name \<in> dirs fresh_machine"
    by (simp add: temp_name_def fresh_machine_def)
  from notebook_cleans_up [of temp_name download_only fresh_machine, OF frame root empty nonempty parent]
    empty nonempty parent
  show ?thesis
    by blast
qed

end
